theory Spec2Isabelle
  imports Main
begin

section \<open>CEL rule compilation and evaluation of kube-openapi\<close>

text \<open>
  The development embeds the rule compiler of \<^verbatim>\<open>pkg/util/cel/cel_compilation.go\<close>
  (both revisions of \<^verbatim>\<open>Compile\<close>), the older compilers \<^verbatim>\<open>CompileCel\<close> and
  \<^verbatim>\<open>CompileCelForScalarElement\<close> of package \<^verbatim>\<open>validate\<close>, and the validator
  \<^verbatim>\<open>celExpressionValidator\<close> with its constructor.

  The expression engine (cel-go) is external. Its environments are modelled by the list of
  options they were built from; whether the engine accepts an option list, an expression
  text or a checked expression is a parameter of the model.
\<close>

subsection \<open>Data model\<close>

text \<open>\<^verbatim>\<open>type CelRule struct { Rule string; Message string }\<close>\<close>

record CelRule =
  Rule :: string
  Message :: string

type_synonym CelRules = "CelRule list"

text \<open>
  \<^verbatim>\<open>spec.Schema\<close>, as far as the compilers and their tests read it: \<^verbatim>\<open>Type\<close> (a
  \<^verbatim>\<open>StringOrArray\<close>), \<^verbatim>\<open>Format\<close>, \<^verbatim>\<open>Properties\<close>, \<^verbatim>\<open>Items\<close> and
  \<^verbatim>\<open>AdditionalProperties\<close>.
\<close>

datatype schema = Schema
  (Type: "string list")
  (Format: string)
  (Properties: "(string \<times> schema) list")
  (Items: "schema option")
  (AdditionalProperties: "schema option")

text \<open>\<^verbatim>\<open>StringOrArray.Contains\<close>: a linear search for an equal element.\<close>

fun Contains :: "string list \<Rightarrow> string \<Rightarrow> bool" where
  "Contains [] v = False"
| "Contains (s # ss) v = (if s = v then True else Contains ss v)"

text \<open>
  Engine types (\<^verbatim>\<open>*expr.Type\<close>): the four primitives the source names
  (\<^verbatim>\<open>decls.String\<close>, \<^verbatim>\<open>decls.Int\<close>, \<^verbatim>\<open>decls.Bool\<close>, \<^verbatim>\<open>decls.Double\<close>) and
  the types a declaration's \<^verbatim>\<open>ExprType()\<close> may return, kept by name.
\<close>

datatype exprType = decls_String | decls_Int | decls_Bool | decls_Double | decls_Named string

text \<open>\<^verbatim>\<open>decls.NewVar(name, type)\<close>\<close>

datatype decl = NewVar string exprType

text \<open>
  Environment options: the two extension libraries, a declaration set, and the opaque
  options that \<^verbatim>\<open>RuleTypes.EnvOptions\<close> hands back (type provider, type adapter).
\<close>

datatype envOption = Strings | Encoders | Declarations "decl list" | Custom string

type_synonym env = "envOption list"

text \<open>The variables an environment declares, in declaration order.\<close>

fun envVars :: "env \<Rightarrow> decl list" where
  "envVars [] = []"
| "envVars (Declarations ds # os) = ds @ envVars os"
| "envVars (_ # os) = envVars os"

text \<open>
  A panic ends the process; it is a result of its own, apart from the error values a
  function returns.
\<close>

datatype panic = Panic string

subsection \<open>External collaborators\<close>

text \<open>
  The engine and the declaration model \<^verbatim>\<open>celmodel\<close> (third_party/forked/celopenapi/model,
  not part of the sources at hand) are parameters:
  \<^item> \<open>envError\<close>: the error, if any, with which \<^verbatim>\<open>cel.NewEnv\<close> or \<^verbatim>\<open>Env.Extend\<close>
    refuses the resulting option list;
  \<^item> \<open>EnvCompile\<close>: \<^verbatim>\<open>env.Compile(text)\<close>, \<open>Inl\<close> the text of \<^verbatim>\<open>issues.Err()\<close> when
    \<^verbatim>\<open>issues != nil\<close>;
  \<^item> \<open>EnvProgram\<close>: \<^verbatim>\<open>env.Program(ast)\<close>;
  \<^item> \<open>NewRuleTypes\<close>, \<open>EnvOptions\<close>, \<open>FindDeclType\<close>: the methods of \<^verbatim>\<open>RuleTypes\<close>
    (the registry and the type provider are derived from the environment passed);
  \<^item> \<open>IsObject\<close>, \<open>IsMap\<close>, \<open>IsList\<close>, \<open>Fields\<close>, \<open>ExprType\<close>: \<^verbatim>\<open>DeclType\<close>; a field
    is given with the declaration of its type (\<^verbatim>\<open>f.Type\<close>), in the order the
    \<^verbatim>\<open>range\<close> loop visits the map;
  \<^item> \<open>SchemaDeclType\<close>: \<^verbatim>\<open>SchemaDeclType(schema).MaybeAssignTypeName(name)\<close>.
  Errors are kept by their text.
\<close>

record ('rt, 'dt, 'ast, 'prog) deps =
  envError :: "envOption list \<Rightarrow> string option"
  EnvCompile :: "env \<Rightarrow> string \<Rightarrow> string + 'ast"
  EnvProgram :: "env \<Rightarrow> 'ast \<Rightarrow> string + 'prog"
  NewRuleTypes :: "string \<Rightarrow> schema \<Rightarrow> env \<Rightarrow> string + 'rt"
  EnvOptions :: "'rt \<Rightarrow> env \<Rightarrow> string + envOption list"
  FindDeclType :: "'rt \<Rightarrow> string \<Rightarrow> 'dt option"
  IsObject :: "'dt \<Rightarrow> bool"
  IsMap :: "'dt \<Rightarrow> bool"
  IsList :: "'dt \<Rightarrow> bool"
  Fields :: "'dt \<Rightarrow> (string \<times> 'dt) list"
  ExprType :: "'dt \<Rightarrow> exprType"
  SchemaDeclType :: "schema \<Rightarrow> string \<Rightarrow> 'dt"

text \<open>\<^verbatim>\<open>cel.NewEnv(opts...)\<close> and \<^verbatim>\<open>env.Extend(opts...)\<close>\<close>

definition NewEnv :: "('rt, 'dt, 'ast, 'prog) deps \<Rightarrow> envOption list \<Rightarrow> string + env" where
  "NewEnv d opts = (case envError d opts of Some e \<Rightarrow> Inl e | None \<Rightarrow> Inr opts)"

definition Extend :: "('rt, 'dt, 'ast, 'prog) deps \<Rightarrow> env \<Rightarrow> envOption list \<Rightarrow> string + env" where
  "Extend d e opts = (case envError d (e @ opts) of Some err \<Rightarrow> Inl err | None \<Rightarrow> Inr (e @ opts))"

text \<open>\<^verbatim>\<open>env, _ := cel.NewEnv()\<close>: the environment without options; its error is discarded.\<close>

definition baseEnv :: env where
  "baseEnv = []"

subsection \<open>The compile loop\<close>

text \<open>
  \<^verbatim>\<open>
  programs := make([]cel.Program, len(CelRules))
  for i, rule := range CelRules {
      ast, issues := env.Compile(rule.Rule)
      if issues != nil {
          allErrors = append(allErrors, fmt.Errorf("compilation failed for rule: %v with message: %v", rule.Message, issues.Err()))
      } else {
          prog, err := env.Program(ast)
          if err != nil {
              allErrors = append(allErrors, fmt.Errorf("program instantiation failed for rule: %v with message: %v", rule.Message, err))
          } else {
              programs[i] = prog
          }
      }
  }
  return programs, allErrors
  \<close>
  The loop is the same text in \<^verbatim>\<open>Compile\<close> (both revisions), \<^verbatim>\<open>CompileCel\<close> and
  \<^verbatim>\<open>CompileCelForScalarElement\<close>. \<open>compileLoop\<close> carries the index \<open>i\<close>, the slice
  \<open>programs\<close> (\<open>None\<close> is the nil program) and \<open>allErrors\<close>.
\<close>

fun compileLoop :: "('rt, 'dt, 'ast, 'prog) deps \<Rightarrow> env \<Rightarrow> CelRules \<Rightarrow> nat \<Rightarrow>
    'prog option list \<Rightarrow> string list \<Rightarrow> 'prog option list \<times> string list" where
  "compileLoop d e [] i programs allErrors = (programs, allErrors)"
| "compileLoop d e (rule # rest) i programs allErrors =
     (case EnvCompile d e (Rule rule) of
        Inl issues \<Rightarrow>
          compileLoop d e rest (i + 1) programs
            (allErrors @ [''compilation failed for rule: '' @ Message rule @
                          '' with message: '' @ issues])
      | Inr ast \<Rightarrow>
          (case EnvProgram d e ast of
             Inl err \<Rightarrow>
               compileLoop d e rest (i + 1) programs
                 (allErrors @ [''program instantiation failed for rule: '' @ Message rule @
                               '' with message: '' @ err])
           | Inr prog \<Rightarrow>
               compileLoop d e rest (i + 1) (programs[i := Some prog]) allErrors))"

definition compileRules :: "('rt, 'dt, 'ast, 'prog) deps \<Rightarrow> env \<Rightarrow> CelRules \<Rightarrow> string list \<Rightarrow>
    'prog option list \<times> string list" where
  "compileRules d e rules allErrors =
     compileLoop d e rules 0 (replicate (length rules) None) allErrors"

subsection \<open>Compile, current revision (rules and scope name as arguments)\<close>

text \<open>\<^verbatim>\<open>schema.Type[0]\<close>: an index out of range panics.\<close>

definition index0 :: "string list \<Rightarrow> panic + string" where
  "index0 xs = (case xs of [] \<Rightarrow> Inl (Panic ''index out of range [0] with length 0'') | x # _ \<Rightarrow> Inr x)"

text \<open>
  \<^verbatim>\<open>for k, f := range root.Fields { propDecls = append(propDecls, decls.NewVar(k, f.Type.ExprType())) }\<close>
\<close>

fun fieldDecls :: "('rt, 'dt, 'ast, 'prog) deps \<Rightarrow> (string \<times> 'dt) list \<Rightarrow> decl list \<Rightarrow> decl list" where
  "fieldDecls d [] propDecls = propDecls"
| "fieldDecls d ((k, f) # rest) propDecls = fieldDecls d rest (propDecls @ [NewVar k (ExprType d f)])"

text \<open>
  Lines 44 to 101 of \<^verbatim>\<open>Compile\<close>: the environment the rules are compiled in.
  The result is a panic, or the error list of an early \<^verbatim>\<open>return nil, allErrors\<close>
  (\<^verbatim>\<open>allErrors\<close> is empty until then), or the environment.
\<close>

definition CompileEnv :: "('rt, 'dt, 'ast, 'prog) deps \<Rightarrow> schema \<Rightarrow> string \<Rightarrow>
    panic + (string list + env)" where
  "CompileEnv d schema rootName =
     (if Contains (Type schema) ''string'' \<or> Contains (Type schema) ''integer'' \<or>
         Contains (Type schema) ''boolean'' \<or> Contains (Type schema) ''number''
      then
        (case index0 (Type schema) of
           Inl p \<Rightarrow> Inl p
         | Inr t0 \<Rightarrow>
             (case (if t0 = ''string'' then Some [NewVar rootName decls_String]
                    else if t0 = ''integer'' then Some [NewVar rootName decls_Int]
                    else if t0 = ''boolean'' then Some [NewVar rootName decls_Bool]
                    else if t0 = ''number'' then Some [NewVar rootName decls_Double]
                    else None) of
                None \<Rightarrow> Inr (Inl [''not supported for type: '' @ t0])
              | Some propDecls \<Rightarrow>
                  (case NewEnv d [Strings, Encoders, Declarations propDecls] of
                     Inl err \<Rightarrow> Inr (Inl [''error initializing CEL environment: '' @ err])
                   | Inr e \<Rightarrow> Inr (Inr e))))
      else
        (case NewRuleTypes d rootName schema baseEnv of
           Inl err \<Rightarrow> Inr (Inl [err])
         | Inr rt \<Rightarrow>
             (case EnvOptions d rt baseEnv of
                Inl err \<Rightarrow> Inr (Inl [err])
              | Inr opts \<Rightarrow>
                  (case (case FindDeclType d rt rootName of
                           Some root \<Rightarrow>
                             if IsObject d root \<or> IsMap d root then Inr (fieldDecls d (Fields d root) [])
                             else if IsList d root then Inr []
                             else Inl [''unsupported type'']
                         | None \<Rightarrow> Inr []) of
                     Inl errs \<Rightarrow> Inr (Inl errs)
                   | Inr propDecls \<Rightarrow>
                       (case Extend d baseEnv (opts @ [Declarations propDecls]) of
                          Inl err \<Rightarrow> Inr (Inl [err])
                        | Inr e \<Rightarrow> Inr (Inr e))))))"

text \<open>
  \<^verbatim>\<open>func Compile(schema *spec.Schema, CelRules CelRules, rootName string) ([]cel.Program, []error)\<close>.
  The nil slice of an early return is the empty list.
\<close>

definition Compile :: "('rt, 'dt, 'ast, 'prog) deps \<Rightarrow> schema \<Rightarrow> CelRules \<Rightarrow> string \<Rightarrow>
    panic + ('prog option list \<times> string list)" where
  "Compile d schema rules rootName =
     (let rootName = (if length rootName = 0 then ''self'' else rootName) in
      case CompileEnv d schema rootName of
        Inl p \<Rightarrow> Inl p
      | Inr (Inl allErrors) \<Rightarrow> Inr ([], allErrors)
      | Inr (Inr e) \<Rightarrow> Inr (compileRules d e rules []))"

subsection \<open>Compile, second revision (scope name fixed to self)\<close>

text \<open>
  Lines 158 to 186 of the file's second revision. The error of \<^verbatim>\<open>rt.EnvOptions\<close> is
  overwritten unread; the options are then nil. A root that \<^verbatim>\<open>FindDeclType\<close> does not
  find is taken from \<^verbatim>\<open>SchemaDeclType\<close>.
\<close>

definition Compile2Env :: "('rt, 'dt, 'ast, 'prog) deps \<Rightarrow> schema \<Rightarrow> string list + env" where
  "Compile2Env d schema =
     (let scopedTypeName = ''self'' in
      case NewRuleTypes d scopedTypeName schema baseEnv of
        Inl err \<Rightarrow> Inl [err]
      | Inr rt \<Rightarrow>
          (let opts = (case EnvOptions d rt baseEnv of Inl err \<Rightarrow> [] | Inr os \<Rightarrow> os);
               root = (case FindDeclType d rt scopedTypeName of
                         Some r \<Rightarrow> r
                       | None \<Rightarrow> SchemaDeclType d schema scopedTypeName);
               propDecls = (if IsObject d root then fieldDecls d (Fields d root) [] else []);
               propDecls = propDecls @ [NewVar scopedTypeName (ExprType d root)]
           in case Extend d baseEnv (opts @ [Declarations propDecls]) of
                Inl err \<Rightarrow> Inl [err]
              | Inr e \<Rightarrow> Inr e))"

definition Compile2 :: "('rt, 'dt, 'ast, 'prog) deps \<Rightarrow> schema \<Rightarrow> CelRules \<Rightarrow>
    'prog option list \<times> string list" where
  "Compile2 d schema celRules =
     (case Compile2Env d schema of
        Inl allErrors \<Rightarrow> ([], allErrors)
      | Inr e \<Rightarrow> compileRules d e celRules [])"

subsection \<open>CompileCel and CompileCelForScalarElement (package validate)\<close>

definition CompileCelEnv :: "('rt, 'dt, 'ast, 'prog) deps \<Rightarrow> schema \<Rightarrow> string \<Rightarrow> string list + env" where
  "CompileCelEnv d schema rootName =
     (case NewRuleTypes d rootName schema baseEnv of
        Inl err \<Rightarrow> Inl [err]
      | Inr rt \<Rightarrow>
          (case EnvOptions d rt baseEnv of
             Inl err \<Rightarrow> Inl [err]
           | Inr opts \<Rightarrow>
               (let propDecls = (case FindDeclType d rt rootName of
                                   Some root \<Rightarrow>
                                     if IsObject d root then fieldDecls d (Fields d root) [] else []
                                 | None \<Rightarrow> [])
                in case Extend d baseEnv (opts @ [Declarations propDecls]) of
                     Inl err \<Rightarrow> Inl [err]
                   | Inr e \<Rightarrow> Inr e)))"

definition CompileCel :: "('rt, 'dt, 'ast, 'prog) deps \<Rightarrow> schema \<Rightarrow> CelRules \<Rightarrow> string \<Rightarrow>
    'prog option list \<times> string list" where
  "CompileCel d schema rules rootName =
     (let rootName = (if length rootName = 0 then ''__root__'' else rootName) in
      case CompileCelEnv d schema rootName of
        Inl allErrors \<Rightarrow> ([], allErrors)
      | Inr e \<Rightarrow> compileRules d e rules [])"

definition CompileCelForScalarElementEnv :: "('rt, 'dt, 'ast, 'prog) deps \<Rightarrow> string \<Rightarrow> string \<Rightarrow>
    string list + env" where
  "CompileCelForScalarElementEnv d schemaName schemaType =
     (case (if schemaType = ''string'' then Some [NewVar schemaName decls_String]
            else if schemaType = ''integer'' then Some [NewVar schemaName decls_Int]
            else if schemaType = ''boolean'' then Some [NewVar schemaName decls_Bool]
            else None) of
        None \<Rightarrow> Inl [''not supported for type: '' @ schemaType]
      | Some celDecls \<Rightarrow>
          (case NewEnv d [Strings, Encoders, Declarations celDecls] of
             Inl err \<Rightarrow> Inl [''error initializing CEL environment: '' @ err]
           | Inr e \<Rightarrow> Inr e))"

definition CompileCelForScalarElement :: "('rt, 'dt, 'ast, 'prog) deps \<Rightarrow> CelRules \<Rightarrow> string \<Rightarrow>
    string \<Rightarrow> 'prog option list \<times> string list" where
  "CompileCelForScalarElement d rules schemaName schemaType =
     (case CompileCelForScalarElementEnv d schemaName schemaType of
        Inl allErrors \<Rightarrow> ([], allErrors)
      | Inr e \<Rightarrow> compileRules d e rules [])"

subsection \<open>The validator\<close>

text \<open>
  \<^verbatim>\<open>type celExpressionValidator struct { Path string; Rules CelRules; Programs []cel.Program }\<close>
\<close>

record 'prog celExpressionValidator =
  Path :: string
  Rules :: CelRules
  Programs :: "'prog option list"

text \<open>
  The loop of \<^verbatim>\<open>newCelExpressionValidator\<close>: a rule that does not compile, or whose
  program cannot be instantiated, panics.
\<close>

fun newValidatorLoop :: "('rt, 'dt, 'ast, 'prog) deps \<Rightarrow> env \<Rightarrow> CelRules \<Rightarrow> nat \<Rightarrow>
    'prog option list \<Rightarrow> panic + 'prog option list" where
  "newValidatorLoop d e [] i programs = Inr programs"
| "newValidatorLoop d e (rule # rest) i programs =
     (case EnvCompile d e (Rule rule) of
        Inl issues \<Rightarrow> Inl (Panic (''compilation failed: '' @ issues))
      | Inr ast \<Rightarrow>
          (case EnvProgram d e ast of
             Inl err \<Rightarrow> Inl (Panic (''program instantiation failed: '' @ err))
           | Inr prog \<Rightarrow> newValidatorLoop d e rest (i + 1) (programs[i := Some prog])))"

definition newCelExpressionValidator :: "('rt, 'dt, 'ast, 'prog) deps \<Rightarrow> string \<Rightarrow> schema \<Rightarrow>
    CelRules \<Rightarrow> panic + 'prog celExpressionValidator" where
  "newCelExpressionValidator d path schema rules =
     (case NewRuleTypes d ''__root__'' schema baseEnv of
        Inl err \<Rightarrow> Inl (Panic err)
      | Inr rt \<Rightarrow>
          (case EnvOptions d rt baseEnv of
             Inl err \<Rightarrow> Inl (Panic err)
           | Inr opts \<Rightarrow>
               (let propDecls = (case FindDeclType d rt ''__root__'' of
                                   Some root \<Rightarrow>
                                     if IsObject d root then fieldDecls d (Fields d root) [] else []
                                 | None \<Rightarrow> [])
                in case Extend d baseEnv (opts @ [Declarations propDecls]) of
                     Inl err \<Rightarrow> Inl (Panic err)
                   | Inr e \<Rightarrow>
                       (case newValidatorLoop d e rules 0 (replicate (length rules) None) of
                          Inl p \<Rightarrow> Inl p
                        | Inr programs \<Rightarrow>
                            Inr \<lparr>Path = path, Rules = rules, Programs = programs\<rparr>))))"

text \<open>
  \<^verbatim>\<open>func (c celExpressionValidator) SetPath(path string) { c.Path = path }\<close>.
  The receiver is a value: the method works on a copy. The result pairs the validator the
  caller holds after the call with the copy the method assigned to.
\<close>

definition SetPath :: "'prog celExpressionValidator \<Rightarrow> string \<Rightarrow>
    'prog celExpressionValidator \<times> 'prog celExpressionValidator" where
  "SetPath caller path = (let c = caller; c = c\<lparr>Path := path\<rparr> in (caller, c))"

text \<open>
  What a program's evaluation yields: \<^verbatim>\<open>evalResult.Value()\<close> is an \<^verbatim>\<open>interface{}\<close>,
  compared with \<^verbatim>\<open>true\<close>.
\<close>

datatype val = VBool bool | VInt int | VString string | VNull

text \<open>
  The two error constructors of package \<^verbatim>\<open>errors\<close> that \<^verbatim>\<open>Validate\<close> calls, kept
  with their arguments: path, location, rule text, cause or message, data.
\<close>

datatype 'data validationError =
    ErrorExecutingValidatorRule string string string string 'data
  | FailedValidatorRule string string string string 'data

text \<open>
  What \<^verbatim>\<open>Validate\<close> runs on: \<open>Eval\<close> is \<^verbatim>\<open>program.Eval(data)\<close> (\<open>Inl\<close> the runtime
  error), \<open>newResult\<close> is \<^verbatim>\<open>new(Result)\<close> and \<open>AddErrors\<close> is \<^verbatim>\<open>res.AddErrors\<close>;
  \<^verbatim>\<open>Result\<close> is not part of the sources at hand.
\<close>

record ('prog, 'data, 'res) evalDeps =
  Eval :: "'prog \<Rightarrow> 'data \<Rightarrow> string + val"
  newResult :: 'res
  AddErrors :: "'res \<Rightarrow> 'data validationError \<Rightarrow> 'res"

text \<open>
  \<^verbatim>\<open>
  for i, program := range c.Programs {
      rule := c.Rules[i]
      evalResult, _, err := program.Eval(data)
      if err != nil {
          res.AddErrors(errors.ErrorExecutingValidatorRule(c.Path, "", rule.Rule, err, data))
          continue
      }
      if evalResult.Value() != true {
          res.AddErrors(errors.FailedValidatorRule(c.Path, "", rule.Rule, rule.Message, data))
      }
  }
  \<close>
  \<^verbatim>\<open>c.Rules[i]\<close> panics out of range, and so does the call of a nil program.
\<close>

fun validateLoop :: "('prog, 'data, 'res) evalDeps \<Rightarrow> 'prog celExpressionValidator \<Rightarrow> 'data \<Rightarrow>
    'prog option list \<Rightarrow> nat \<Rightarrow> 'res \<Rightarrow> panic + 'res" where
  "validateLoop v c data [] i res = Inr res"
| "validateLoop v c data (program # rest) i res =
     (if i < length (Rules c) then
        (let rule = Rules c ! i in
         case program of
           None \<Rightarrow> Inl (Panic ''invalid memory address or nil pointer dereference'')
         | Some prog \<Rightarrow>
             (case Eval v prog data of
                Inl err \<Rightarrow>
                  validateLoop v c data rest (i + 1)
                    (AddErrors v res (ErrorExecutingValidatorRule (Path c) [] (Rule rule) err data))
              | Inr evalResult \<Rightarrow>
                  if evalResult \<noteq> VBool True then
                    validateLoop v c data rest (i + 1)
                      (AddErrors v res (FailedValidatorRule (Path c) [] (Rule rule) (Message rule) data))
                  else validateLoop v c data rest (i + 1) res))
      else Inl (Panic ''index out of range''))"

definition Validate :: "('prog, 'data, 'res) evalDeps \<Rightarrow> 'prog celExpressionValidator \<Rightarrow> 'data \<Rightarrow>
    panic + 'res" where
  "Validate v c data = validateLoop v c data (Programs c) 0 (newResult v)"

subsection \<open>The specification's per-rule outcomes\<close>

text \<open>
  Section 4.2 of the specification, steps 4 and 5, for one rule: a rule that fails to
  compile leaves its slot absent and records one error naming the rule's message and the
  diagnostic; a rule that compiles fills its slot and records nothing.
\<close>

definition spec_ruleProgram :: "('rt, 'dt, 'ast, 'prog) deps \<Rightarrow> env \<Rightarrow> CelRule \<Rightarrow> 'prog option" where
  "spec_ruleProgram d e rule =
     (case EnvCompile d e (Rule rule) of
        Inl issues \<Rightarrow> None
      | Inr ast \<Rightarrow> (case EnvProgram d e ast of Inl err \<Rightarrow> None | Inr prog \<Rightarrow> Some prog))"

definition spec_ruleErrors :: "('rt, 'dt, 'ast, 'prog) deps \<Rightarrow> env \<Rightarrow> CelRule \<Rightarrow> string list" where
  "spec_ruleErrors d e rule =
     (case EnvCompile d e (Rule rule) of
        Inl issues \<Rightarrow>
          [''compilation failed for rule: '' @ Message rule @ '' with message: '' @ issues]
      | Inr ast \<Rightarrow>
          (case EnvProgram d e ast of
             Inl err \<Rightarrow>
               [''program instantiation failed for rule: '' @ Message rule @
                '' with message: '' @ err]
           | Inr prog \<Rightarrow> []))"

text \<open>
  Section 4.3: the three outcomes of evaluating one rule, a non-boolean value counting as
  false.
\<close>

definition spec_ruleOutcome :: "('prog, 'data, 'res) evalDeps \<Rightarrow> string \<Rightarrow> 'data \<Rightarrow>
    'prog \<times> CelRule \<Rightarrow> 'data validationError list" where
  "spec_ruleOutcome v path data pr =
     (case Eval v (fst pr) data of
        Inl err \<Rightarrow> [ErrorExecutingValidatorRule path [] (Rule (snd pr)) err data]
      | Inr (VBool True) \<Rightarrow> []
      | Inr other \<Rightarrow> [FailedValidatorRule path [] (Rule (snd pr)) (Message (snd pr)) data])"

text \<open>The engine scalar of a schema type name (data model, section 3).\<close>

definition spec_scalarType :: "string \<Rightarrow> exprType option" where
  "spec_scalarType t =
     (if t = ''string'' then Some decls_String
      else if t = ''integer'' then Some decls_Int
      else if t = ''boolean'' then Some decls_Bool
      else if t = ''number'' then Some decls_Double
      else None)"

subsection \<open>A test double of the collaborators\<close>

text \<open>
  Concrete collaborators for the closed examples below. A declaration is a kind, its
  fields and its engine type. The rule types are known by the name they were created
  under, which the double reports in its options and finds again; the engine takes every
  option list, rejects the empty expression with a syntax error, compiles the four
  texts it knows and reports any other text as an undeclared reference.
\<close>

datatype declType = DeclType (kindOf: string) (fieldsOf: "(string \<times> declType) list") (exprOf: exprType)

definition testCompile :: "env \<Rightarrow> string \<Rightarrow> string + string" where
  "testCompile e text =
     (if text = [] then Inl ''Syntax error: mismatched input <EOF>''
      else if text = ''minReplicas < maxReplicas'' \<or> text = ''self > 0'' \<or>
              text = ''1 / self > 0'' \<or> text = ''size(self) > 0''
      then Inr text
      else Inl (''undeclared reference in '' @ text))"

definition testDeps :: "declType option \<Rightarrow> (string, declType, string, string) deps" where
  "testDeps root =
     \<lparr>envError = (\<lambda>opts. None),
      EnvCompile = testCompile,
      EnvProgram = (\<lambda>e ast. Inr ast),
      NewRuleTypes = (\<lambda>name schema e. Inr name),
      EnvOptions = (\<lambda>rt e. Inr [Custom rt]),
      FindDeclType = (\<lambda>rt name. if name = rt then root else None),
      IsObject = (\<lambda>t. kindOf t = ''object''),
      IsMap = (\<lambda>t. kindOf t = ''map''),
      IsList = (\<lambda>t. kindOf t = ''list''),
      Fields = fieldsOf,
      ExprType = exprOf,
      SchemaDeclType = (\<lambda>schema name. DeclType ''dyn'' [] (decls_Named ''dyn''))\<rparr>"

text \<open>A double whose \<open>NewRuleTypes\<close> fails, naming the type name it was given.\<close>

definition namingDeps :: "(string, declType, string, string) deps" where
  "namingDeps = (testDeps None)\<lparr>NewRuleTypes := (\<lambda>name schema e. Inl (''no rule types for '' @ name))\<rparr>"

definition replicasObject :: declType where
  "replicasObject =
     DeclType ''object''
       [(''minReplicas'', DeclType ''int'' [] decls_Int),
        (''maxReplicas'', DeclType ''int'' [] decls_Int)]
       (decls_Named ''object'')"

definition stringList :: declType where
  "stringList = DeclType ''list'' [] (decls_Named ''list'')"

definition objectSchema :: schema where
  "objectSchema =
     Schema [''object'']
       []
       [(''minReplicas'', Schema [''integer''] [] [] None None),
        (''maxReplicas'', Schema [''integer''] [] [] None None)]
       None None"

definition integerSchema :: schema where
  "integerSchema = Schema [''integer''] [] [] None None"

definition byteSchema :: schema where
  "byteSchema = Schema [''string''] ''byte'' [] None None"

definition arraySchema :: schema where
  "arraySchema = Schema [''array''] [] [] (Some (Schema [''string''] [] [] None None)) None"

text \<open>
  Evaluation over integer instances: the programs are known by their text, and the
  result collects the errors added, in order.
\<close>

definition testEval :: "(string, int, int validationError list) evalDeps" where
  "testEval =
     \<lparr>Eval = (\<lambda>prog data.
        if prog = ''self > 0'' then Inr (VBool (0 < data))
        else if prog = ''1 / self > 0'' then
          (if data = 0 then Inl ''division by zero'' else Inr (VBool (0 < 1 div data)))
        else Inr (VInt data)),
      newResult = [],
      AddErrors = (\<lambda>res e. res @ [e])\<rparr>"

section \<open>Properties\<close>

subsection \<open>Auxiliary facts\<close>

lemma fieldDecls_eq:
  "fieldDecls d fs propDecls = propDecls @ map (\<lambda>kf. NewVar (fst kf) (ExprType d (snd kf))) fs"
  by (induction fs arbitrary: propDecls) auto


text \<open>
  The loop invariant: with the first \<open>i\<close> slots filled and the others still nil, the
  loop leaves each remaining rule's own outcome in the rule's slot and appends each
  rule's own errors.
\<close>

lemma compileLoop_eq:
  "length filled = i \<Longrightarrow>
   compileLoop d e rules i (filled @ replicate (length rules) None) errs =
     (filled @ map (spec_ruleProgram d e) rules, errs @ concat (map (spec_ruleErrors d e) rules))"
proof (induction rules arbitrary: i filled errs)
  case Nil
  then show ?case by simp
next
  case (Cons rule rest)
  have upd: "(filled @ replicate (Suc (length rest)) None)[i := Some p] =
       (filled @ [Some p]) @ replicate (length rest) None" for p
    using Cons.prems by (simp add: list_update_append)
  have len: "length (filled @ [x]) = i + 1" for x
    using Cons.prems by simp
  show ?case
  proof (cases "EnvCompile d e (Rule rule)")
    case (Inl issues)
    then show ?thesis
      using Cons.IH[OF len[of None]]
      by (simp add: spec_ruleProgram_def spec_ruleErrors_def replicate_app_Cons_same)
  next
    case compiled: (Inr ast)
    show ?thesis
    proof (cases "EnvProgram d e ast")
      case (Inl err)
      then show ?thesis
        using compiled Cons.IH[OF len[of None]]
        by (simp add: spec_ruleProgram_def spec_ruleErrors_def replicate_app_Cons_same)
    next
      case (Inr prog)
      then show ?thesis
        using compiled Cons.IH[OF len[of "Some prog"]] upd[of prog]
        by (simp add: spec_ruleProgram_def spec_ruleErrors_def)
    qed
  qed
qed

lemma compileRules_eq:
  "compileRules d e rules errs =
     (map (spec_ruleProgram d e) rules, errs @ concat (map (spec_ruleErrors d e) rules))"
  using compileLoop_eq[of "[]" 0 d e rules errs] by (simp add: compileRules_def)

lemma validateLoop_eq:
  "i + length progs \<le> length (Rules c) \<Longrightarrow>
   validateLoop v c data (map Some progs) i res =
     Inr (foldl (AddErrors v) res
            (concat (map (spec_ruleOutcome v (Path c) data) (zip progs (drop i (Rules c))))))"
proof (induction progs arbitrary: i res)
  case Nil
  then show ?case by simp
next
  case (Cons prog rest)
  from Cons.prems have i: "i < length (Rules c)" and rest: "(i + 1) + length rest \<le> length (Rules c)"
    by simp_all
  have drop: "drop i (Rules c) = Rules c ! i # drop (i + 1) (Rules c)"
    using i by (simp add: Cons_nth_drop_Suc)
  show ?case
  proof (cases "Eval v prog data")
    case (Inl err)
    then show ?thesis
      using i Cons.IH[OF rest] by (simp add: drop spec_ruleOutcome_def Let_def)
  next
    case (Inr evalResult)
    then show ?thesis
      using i Cons.IH[OF rest]
      by (cases evalResult) (auto simp: drop spec_ruleOutcome_def Let_def split: bool.splits)
  qed
qed

text \<open>The test double, field by field.\<close>

lemma testDeps_sel:
  "envError (testDeps r) = (\<lambda>opts. None)"
  "EnvCompile (testDeps r) = testCompile"
  "EnvProgram (testDeps r) = (\<lambda>e ast. Inr ast)"
  "NewRuleTypes (testDeps r) = (\<lambda>name schema e. Inr name)"
  "EnvOptions (testDeps r) = (\<lambda>rt e. Inr [Custom rt])"
  "FindDeclType (testDeps r) = (\<lambda>rt name. if name = rt then r else None)"
  "IsObject (testDeps r) = (\<lambda>t. kindOf t = ''object'')"
  "IsMap (testDeps r) = (\<lambda>t. kindOf t = ''map'')"
  "IsList (testDeps r) = (\<lambda>t. kindOf t = ''list'')"
  "Fields (testDeps r) = fieldsOf"
  "ExprType (testDeps r) = exprOf"
  by (simp_all add: testDeps_def)

lemma test_CompileEnv_integer:
  "CompileEnv (testDeps None) integerSchema ''self'' =
     Inr (Inr [Strings, Encoders, Declarations [NewVar ''self'' decls_Int]])"
  by (simp add: CompileEnv_def testDeps_sel integerSchema_def index0_def NewEnv_def)

lemma test_CompileEnv_object:
  "CompileEnv (testDeps (Some replicasObject)) objectSchema ''self'' =
     Inr (Inr [Custom ''self'',
               Declarations [NewVar ''minReplicas'' decls_Int, NewVar ''maxReplicas'' decls_Int]])"
  by (simp add: CompileEnv_def testDeps_sel objectSchema_def replicasObject_def Extend_def baseEnv_def)

lemma test_CompileCelEnv_object:
  "CompileCelEnv (testDeps (Some replicasObject)) objectSchema ''__root__'' =
     Inr [Custom ''__root__'',
          Declarations [NewVar ''minReplicas'' decls_Int, NewVar ''maxReplicas'' decls_Int]]"
  by (simp add: CompileCelEnv_def testDeps_sel replicasObject_def Extend_def baseEnv_def)

lemma test_Compile_object:
  "Compile (testDeps (Some replicasObject)) objectSchema
     [\<lparr>Rule = ''minReplicas > maxReplicas.size()'', Message = ''sizes''\<rparr>,
      \<lparr>Rule = ''minReplicas < maxReplicas'', Message = ''minReplicas should be smaller than maxReplicas''\<rparr>] [] =
     Inr ([None, Some ''minReplicas < maxReplicas''],
          [''compilation failed for rule: sizes with message: undeclared reference in minReplicas > maxReplicas.size()''])"
  by (simp add: Compile_def test_CompileEnv_object compileRules_def testDeps_sel testCompile_def)

lemma test_CompileCel_object:
  "CompileCel (testDeps (Some replicasObject)) objectSchema
     [\<lparr>Rule = ''minReplicas > maxReplicas.size()'', Message = ''sizes''\<rparr>,
      \<lparr>Rule = ''minReplicas < maxReplicas'', Message = ''minReplicas should be smaller than maxReplicas''\<rparr>] [] =
     ([None, Some ''minReplicas < maxReplicas''],
      [''compilation failed for rule: sizes with message: undeclared reference in minReplicas > maxReplicas.size()''])"
  by (simp add: CompileCel_def test_CompileCelEnv_object compileRules_def testDeps_sel testCompile_def)

subsection \<open>Compilation\<close>

text \<open>
  C1. Once the environment is built, one rule's compile failure does not stop the loop:
  \<^verbatim>\<open>Compile\<close> and \<^verbatim>\<open>CompileCel\<close> return, for every rule list, the errors of all
  rules, each rule contributing its own; a rule the engine rejects with a diagnostic is
  recorded as \<^verbatim>\<open>compilation failed for rule: <message> with message: <diagnostic>\<close>;
  and the slot of every later rule holds that rule's own outcome.
\<close>

theorem compile_collects_all_errors:
  "(CompileEnv d schema (if length rootName = 0 then ''self'' else rootName) = Inr (Inr e) \<longrightarrow>
      (\<exists>programs errs.
         Compile d schema rules rootName = Inr (programs, errs) \<and>
         errs = concat (map (spec_ruleErrors d e) rules) \<and>
         (\<forall>i issues. i < length rules \<and> EnvCompile d e (Rule (rules ! i)) = Inl issues \<longrightarrow>
            (''compilation failed for rule: '' @ Message (rules ! i) @ '' with message: '' @ issues)
              \<in> set errs) \<and>
         (\<forall>i. Suc i < length rules \<longrightarrow>
            programs ! Suc i = spec_ruleProgram d e (rules ! Suc i)))) \<and>
   (CompileCelEnv d schema (if length rootName = 0 then ''__root__'' else rootName) = Inr e' \<longrightarrow>
      (\<exists>programs errs.
         CompileCel d schema rules rootName = (programs, errs) \<and>
         errs = concat (map (spec_ruleErrors d e') rules) \<and>
         (\<forall>i issues. i < length rules \<and> EnvCompile d e' (Rule (rules ! i)) = Inl issues \<longrightarrow>
            (''compilation failed for rule: '' @ Message (rules ! i) @ '' with message: '' @ issues)
              \<in> set errs) \<and>
         (\<forall>i. Suc i < length rules \<longrightarrow>
            programs ! Suc i = spec_ruleProgram d e' (rules ! Suc i))))"
proof -
  have named: "(''compilation failed for rule: '' @ Message (rules ! i) @ '' with message: '' @ issues)
        \<in> set (concat (map (spec_ruleErrors d env) rules))"
    if i: "i < length rules" and c: "EnvCompile d env (Rule (rules ! i)) = Inl issues"
    for env i issues
  proof -
    have "spec_ruleErrors d env (rules ! i) =
        [''compilation failed for rule: '' @ Message (rules ! i) @ '' with message: '' @ issues]"
      using c by (simp add: spec_ruleErrors_def)
    moreover have "rules ! i \<in> set rules"
      using i by simp
    ultimately show ?thesis
      by (auto simp: set_concat intro!: bexI[of _ "rules ! i"])
  qed
  show ?thesis
    using named by (simp add: Compile_def CompileCel_def compileRules_eq Let_def)
qed

theorem compile_collects_all_errors_witness:
  "CompileEnv (testDeps (Some replicasObject)) objectSchema ''self'' =
     Inr (Inr [Custom ''self'',
               Declarations [NewVar ''minReplicas'' decls_Int, NewVar ''maxReplicas'' decls_Int]]) \<and>
   Compile (testDeps (Some replicasObject)) objectSchema
     [\<lparr>Rule = ''minReplicas > maxReplicas.size()'', Message = ''sizes''\<rparr>,
      \<lparr>Rule = ''minReplicas < maxReplicas'', Message = ''minReplicas should be smaller than maxReplicas''\<rparr>] [] =
     Inr ([None, Some ''minReplicas < maxReplicas''],
          [''compilation failed for rule: sizes with message: undeclared reference in minReplicas > maxReplicas.size()'']) \<and>
   CompileCelEnv (testDeps (Some replicasObject)) objectSchema ''__root__'' =
     Inr [Custom ''__root__'',
          Declarations [NewVar ''minReplicas'' decls_Int, NewVar ''maxReplicas'' decls_Int]] \<and>
   CompileCel (testDeps (Some replicasObject)) objectSchema
     [\<lparr>Rule = ''minReplicas > maxReplicas.size()'', Message = ''sizes''\<rparr>,
      \<lparr>Rule = ''minReplicas < maxReplicas'', Message = ''minReplicas should be smaller than maxReplicas''\<rparr>] [] =
     ([None, Some ''minReplicas < maxReplicas''],
      [''compilation failed for rule: sizes with message: undeclared reference in minReplicas > maxReplicas.size()''])"
  using compile_collects_all_errors
    [of "testDeps (Some replicasObject)" objectSchema "[]"
        "[Custom ''self'',
          Declarations [NewVar ''minReplicas'' decls_Int, NewVar ''maxReplicas'' decls_Int]]"
        "[\<lparr>Rule = ''minReplicas > maxReplicas.size()'', Message = ''sizes''\<rparr>,
          \<lparr>Rule = ''minReplicas < maxReplicas'', Message = ''minReplicas should be smaller than maxReplicas''\<rparr>]"
        "[Custom ''__root__'',
          Declarations [NewVar ''minReplicas'' decls_Int, NewVar ''maxReplicas'' decls_Int]]"]
  by (simp add: test_CompileEnv_object test_CompileCelEnv_object test_Compile_object
      test_CompileCel_object)

text \<open>
  C2. Once the environment is built, \<^verbatim>\<open>Compile\<close> returns a program slice as long as
  the rule list; slot \<open>i\<close> holds the program compiled from rule \<open>i\<close>, and the nil program
  where rule \<open>i\<close> failed to compile or to instantiate.
\<close>

theorem compile_index_aligned:
  assumes "CompileEnv d schema (if length rootName = 0 then ''self'' else rootName) = Inr (Inr e)"
  shows "\<exists>programs errs.
           Compile d schema rules rootName = Inr (programs, errs) \<and>
           length programs = length rules \<and>
           (\<forall>i < length rules.
              programs ! i =
                (case EnvCompile d e (Rule (rules ! i)) of
                   Inl issues \<Rightarrow> None
                 | Inr ast \<Rightarrow> (case EnvProgram d e ast of Inl err \<Rightarrow> None | Inr prog \<Rightarrow> Some prog)))"
  using assms by (simp add: Compile_def compileRules_eq spec_ruleProgram_def)

theorem compile_index_aligned_witness:
  "CompileEnv (testDeps (Some replicasObject)) objectSchema ''self'' =
     Inr (Inr [Custom ''self'',
               Declarations [NewVar ''minReplicas'' decls_Int, NewVar ''maxReplicas'' decls_Int]]) \<and>
   (\<exists>errs. Compile (testDeps (Some replicasObject)) objectSchema
     [\<lparr>Rule = ''minReplicas > maxReplicas.size()'', Message = ''sizes''\<rparr>,
      \<lparr>Rule = ''minReplicas < maxReplicas'', Message = ''minReplicas should be smaller than maxReplicas''\<rparr>] [] =
     Inr ([None, Some ''minReplicas < maxReplicas''], errs))"
  using compile_index_aligned
    [of "testDeps (Some replicasObject)" objectSchema "[]"
        "[Custom ''self'',
          Declarations [NewVar ''minReplicas'' decls_Int, NewVar ''maxReplicas'' decls_Int]]"
        "[\<lparr>Rule = ''minReplicas > maxReplicas.size()'', Message = ''sizes''\<rparr>,
          \<lparr>Rule = ''minReplicas < maxReplicas'', Message = ''minReplicas should be smaller than maxReplicas''\<rparr>]"]
  by (simp add: test_CompileEnv_object test_Compile_object)

text \<open>
  C3. A rule with empty expression text is to be rejected as \<^verbatim>\<open>rule is not specified\<close>
  before the engine sees it. \<^verbatim>\<open>Compile\<close> has no such check: on the integer schema of
  the test case of that name, the empty text goes to the engine, and the error recorded
  is the engine's diagnostic under \<^verbatim>\<open>compilation failed for rule\<close>.
\<close>

theorem empty_rule_reaches_engine:
  "Compile (testDeps None) integerSchema
     [\<lparr>Rule = [], Message = ''size of scoped field should be equal to 10''\<rparr>] [] =
     Inr ([None],
          [''compilation failed for rule: size of scoped field should be equal to 10 with message: Syntax error: mismatched input <EOF>''])"
  by (simp add: Compile_def test_CompileEnv_integer compileRules_def testDeps_sel testCompile_def)

subsection \<open>Panics\<close>

text \<open>\<^verbatim>\<open>Compile\<close> always returns: the only index it reads is guarded by \<^verbatim>\<open>Contains\<close>.\<close>

lemma Compile_returns: "\<exists>r. Compile d schema rules rootName = Inr r"
proof -
  have "\<exists>r. CompileEnv d schema n = Inr r" for n
  proof (cases "Type schema")
    case Nil
    then show ?thesis
      by (simp add: CompileEnv_def split: sum.splits option.splits)
  next
    case (Cons t ts)
    then show ?thesis
      by (simp add: CompileEnv_def index0_def split: sum.splits option.splits)
  qed
  then obtain r where "CompileEnv d schema (if length rootName = 0 then ''self'' else rootName) = Inr r"
    by blast
  then show ?thesis
    by (cases r) (simp_all add: Compile_def)
qed

text \<open>
  C5. No failure of setup or of rule compilation is to end the process.
  \<^verbatim>\<open>newCelExpressionValidator\<close> panics on each of them: here on a rule the engine
  rejects, and on rule types that cannot be built.
\<close>

theorem newCelExpressionValidator_panics:
  "newCelExpressionValidator (testDeps (Some replicasObject)) [] objectSchema
     [\<lparr>Rule = ''minReplicas > maxReplicas.size()'', Message = ''sizes''\<rparr>] =
     Inl (Panic ''compilation failed: undeclared reference in minReplicas > maxReplicas.size()'') \<and>
   newCelExpressionValidator namingDeps [] objectSchema [] =
     Inl (Panic ''no rule types for __root__'')"
  by (simp add: newCelExpressionValidator_def testDeps_sel testCompile_def replicasObject_def
      Extend_def baseEnv_def namingDeps_def testDeps_def)

subsection \<open>The environment\<close>







lemma CompileEnv_scalar:
  assumes "spec_scalarType t = Some ty" and "Type schema = t # ts"
  shows "CompileEnv d schema rootName =
        (case envError d [Strings, Encoders, Declarations [NewVar rootName ty]] of
           Some err \<Rightarrow> Inr (Inl [''error initializing CEL environment: '' @ err])
         | None \<Rightarrow> Inr (Inr [Strings, Encoders, Declarations [NewVar rootName ty]]))"
proof -
  from assms(1) consider
      "t = ''string''" "ty = decls_String" | "t = ''integer''" "ty = decls_Int"
    | "t = ''boolean''" "ty = decls_Bool" | "t = ''number''" "ty = decls_Double"
    by (auto simp: spec_scalarType_def split: if_splits)
  then show ?thesis
  proof cases
    case 1
    then show ?thesis using assms(2)
      by (simp add: CompileEnv_def index0_def NewEnv_def split: option.splits)
  next
    case 2
    then show ?thesis using assms(2)
      by (simp add: CompileEnv_def index0_def NewEnv_def split: option.splits)
  next
    case 3
    then show ?thesis using assms(2)
      by (simp add: CompileEnv_def index0_def NewEnv_def split: option.splits)
  next
    case 4
    then show ?thesis using assms(2)
      by (simp add: CompileEnv_def index0_def NewEnv_def split: option.splits)
  qed
qed

lemma CompileCelForScalarElementEnv_scalar:
  assumes "spec_scalarType t = Some ty" and "t \<noteq> ''number''"
  shows "CompileCelForScalarElementEnv d rootName t =
        (case envError d [Strings, Encoders, Declarations [NewVar rootName ty]] of
           Some err \<Rightarrow> Inl [''error initializing CEL environment: '' @ err]
         | None \<Rightarrow> Inr [Strings, Encoders, Declarations [NewVar rootName ty]])"
proof -
  from assms consider
      "t = ''string''" "ty = decls_String" | "t = ''integer''" "ty = decls_Int"
    | "t = ''boolean''" "ty = decls_Bool"
    by (auto simp: spec_scalarType_def split: if_splits)
  then show ?thesis
  proof cases
    case 1
    then show ?thesis
      by (simp add: CompileCelForScalarElementEnv_def NewEnv_def split: option.splits)
  next
    case 2
    then show ?thesis
      by (simp add: CompileCelForScalarElementEnv_def NewEnv_def split: option.splits)
  next
    case 3
    then show ?thesis
      by (simp add: CompileCelForScalarElementEnv_def NewEnv_def split: option.splits)
  qed
qed

text \<open>
  C7, amended. For a root schema whose type is one of string, integer, boolean and number
  (whatever its format), the environment of \<^verbatim>\<open>Compile\<close> is built from the two
  extension libraries and one declaration, the scope variable at the matching engine
  type, so the scope variable is the only variable; if the engine refuses these options
  the error is returned. \<^verbatim>\<open>CompileCelForScalarElement\<close> does the same for string,
  integer and boolean, and reports number as not supported.
\<close>

theorem scalar_root_environment:
  "(spec_scalarType t = Some ty \<and> Type schema = t # ts \<longrightarrow>
      CompileEnv d schema rootName =
        (case envError d [Strings, Encoders, Declarations [NewVar rootName ty]] of
           Some err \<Rightarrow> Inr (Inl [''error initializing CEL environment: '' @ err])
         | None \<Rightarrow> Inr (Inr [Strings, Encoders, Declarations [NewVar rootName ty]]))) \<and>
   (spec_scalarType t = Some ty \<and> t \<noteq> ''number'' \<longrightarrow>
      CompileCelForScalarElementEnv d rootName t =
        (case envError d [Strings, Encoders, Declarations [NewVar rootName ty]] of
           Some err \<Rightarrow> Inl [''error initializing CEL environment: '' @ err]
         | None \<Rightarrow> Inr [Strings, Encoders, Declarations [NewVar rootName ty]])) \<and>
   CompileCelForScalarElementEnv d rootName ''number'' = Inl [''not supported for type: number''] \<and>
   envVars [Strings, Encoders, Declarations [NewVar rootName ty]] = [NewVar rootName ty]"
  using CompileEnv_scalar[of t ty schema ts d rootName]
    CompileCelForScalarElementEnv_scalar[of t ty d rootName]
  by (simp add: CompileCelForScalarElementEnv_def)

theorem scalar_root_environment_witness:
  "spec_scalarType ''string'' = Some decls_String \<and>
   Type byteSchema = [''string''] \<and>
   ''string'' \<noteq> ''number'' \<and>
   CompileEnv (testDeps None) byteSchema ''self'' =
     Inr (Inr [Strings, Encoders, Declarations [NewVar ''self'' decls_String]]) \<and>
   CompileCelForScalarElementEnv (testDeps None) ''self'' ''string'' =
     Inr [Strings, Encoders, Declarations [NewVar ''self'' decls_String]]"
  using scalar_root_environment[of "''string''" decls_String byteSchema "[]" "testDeps None" "''self''"]
  by (simp add: spec_scalarType_def byteSchema_def testDeps_sel)

text \<open>
  C7 as stated fails for \<^verbatim>\<open>CompileCelForScalarElement\<close>: the kind number yields no
  environment.
\<close>

theorem scalar_element_number_counterexample:
  "CompileCelForScalarElement (testDeps None)
     [\<lparr>Rule = ''self > 1.0'', Message = ''scoped field should be greater than 1.0''\<rparr>]
     ''self'' ''number'' = ([], [''not supported for type: number''])"
  by (simp add: CompileCelForScalarElement_def CompileCelForScalarElementEnv_def)

lemma test_CompileEnv_array:
  "CompileEnv (testDeps (Some stringList)) arraySchema ''self'' =
     Inr (Inr [Custom ''self'', Declarations []])"
  by (simp add: CompileEnv_def testDeps_sel arraySchema_def stringList_def Extend_def baseEnv_def)

lemma test_Compile_array:
  "Compile (testDeps (Some stringList)) arraySchema
     [\<lparr>Rule = ''size(self) > 0'', Message = ''scoped field should not be empty''\<rparr>] [] =
     Inr ([Some ''size(self) > 0''], [])"
  by (simp add: Compile_def test_CompileEnv_array compileRules_def testDeps_sel testCompile_def)

lemma test_arraySchema_Type: "Type arraySchema = [''array'']"
  by (simp add: arraySchema_def)

lemma test_stringList_kind: "kindOf stringList = ''list''"
  by (simp add: stringList_def)

text \<open>
  C8. Outside the scalar branch, with the root declaration found: for a root that is a
  list, \<^verbatim>\<open>Compile\<close> declares no field variable and reports no unsupported type, and
  the rules are compiled in the environment the engine makes of the options; for an
  object or map root every field is declared, lists among them; only a root that is
  neither is reported as an unsupported type.
\<close>

theorem bare_list_root_reaches_compilation:
  assumes "\<not> Contains (Type schema) ''string''" and "\<not> Contains (Type schema) ''integer''"
    and "\<not> Contains (Type schema) ''boolean''" and "\<not> Contains (Type schema) ''number''"
    and "name = (if length rootName = 0 then ''self'' else rootName)"
    and "NewRuleTypes d name schema baseEnv = Inr rt"
    and "EnvOptions d rt baseEnv = Inr opts"
    and "FindDeclType d rt name = Some root"
  shows "(IsList d root \<and> \<not> IsObject d root \<and> \<not> IsMap d root \<longrightarrow>
           CompileEnv d schema name =
             (case envError d (opts @ [Declarations []]) of
                Some err \<Rightarrow> Inr (Inl [err])
              | None \<Rightarrow> Inr (Inr (opts @ [Declarations []]))) \<and>
           Compile d schema rules rootName =
             (case envError d (opts @ [Declarations []]) of
                Some err \<Rightarrow> Inr ([], [err])
              | None \<Rightarrow> Inr (compileRules d (opts @ [Declarations []]) rules []))) \<and>
         (IsObject d root \<or> IsMap d root \<longrightarrow>
           CompileEnv d schema name =
             (case envError d (opts @ [Declarations (map (\<lambda>kf. NewVar (fst kf) (ExprType d (snd kf)))
                                                      (Fields d root))]) of
                Some err \<Rightarrow> Inr (Inl [err])
              | None \<Rightarrow> Inr (Inr (opts @ [Declarations (map (\<lambda>kf. NewVar (fst kf) (ExprType d (snd kf)))
                                                         (Fields d root))])))) \<and>
         (\<not> IsList d root \<and> \<not> IsObject d root \<and> \<not> IsMap d root \<longrightarrow>
           CompileEnv d schema name = Inr (Inl [''unsupported type'']) \<and>
           Compile d schema rules rootName = Inr ([], [''unsupported type'']))"
proof -
  have env: "CompileEnv d schema name =
      (if IsObject d root \<or> IsMap d root then
         (case envError d (opts @ [Declarations (map (\<lambda>kf. NewVar (fst kf) (ExprType d (snd kf)))
                                                  (Fields d root))]) of
            Some err \<Rightarrow> Inr (Inl [err])
          | None \<Rightarrow> Inr (Inr (opts @ [Declarations (map (\<lambda>kf. NewVar (fst kf) (ExprType d (snd kf)))
                                                     (Fields d root))])))
       else if IsList d root then
         (case envError d (opts @ [Declarations []]) of
            Some err \<Rightarrow> Inr (Inl [err])
          | None \<Rightarrow> Inr (Inr (opts @ [Declarations []])))
       else Inr (Inl [''unsupported type'']))"
    using assms(1-4,6-8)
    by (simp add: CompileEnv_def Extend_def baseEnv_def fieldDecls_eq split: option.splits)
  have comp: "Compile d schema rules rootName =
      (case CompileEnv d schema name of
         Inl p \<Rightarrow> Inl p
       | Inr (Inl allErrors) \<Rightarrow> Inr ([], allErrors)
       | Inr (Inr e) \<Rightarrow> Inr (compileRules d e rules []))"
    using assms(5) by (simp add: Compile_def)
  show ?thesis
    by (simp add: comp env split: option.splits)
qed

theorem bare_list_root_reaches_compilation_witness:
  "\<not> Contains (Type arraySchema) ''string'' \<and> \<not> Contains (Type arraySchema) ''integer'' \<and>
   \<not> Contains (Type arraySchema) ''boolean'' \<and> \<not> Contains (Type arraySchema) ''number'' \<and>
   NewRuleTypes (testDeps (Some stringList)) ''self'' arraySchema baseEnv = Inr ''self'' \<and>
   EnvOptions (testDeps (Some stringList)) ''self'' baseEnv = Inr [Custom ''self''] \<and>
   FindDeclType (testDeps (Some stringList)) ''self'' ''self'' = Some stringList \<and>
   IsList (testDeps (Some stringList)) stringList \<and>
   \<not> IsObject (testDeps (Some stringList)) stringList \<and>
   \<not> IsMap (testDeps (Some stringList)) stringList \<and>
   CompileEnv (testDeps (Some stringList)) arraySchema ''self'' =
     Inr (Inr [Custom ''self'', Declarations []]) \<and>
   Compile (testDeps (Some stringList)) arraySchema
     [\<lparr>Rule = ''size(self) > 0'', Message = ''scoped field should not be empty''\<rparr>] [] =
     Inr ([Some ''size(self) > 0''], [])"
  using bare_list_root_reaches_compilation
    [of arraySchema "''self''" "[]" "testDeps (Some stringList)" "''self''" "[Custom ''self'']" stringList
        "[\<lparr>Rule = ''size(self) > 0'', Message = ''scoped field should not be empty''\<rparr>]"]
  by (simp add: testDeps_sel test_arraySchema_Type test_stringList_kind test_CompileEnv_array
      test_Compile_array)



subsection \<open>Validation\<close>

text \<open>
  A validator that \<^verbatim>\<open>newCelExpressionValidator\<close> returns holds one program for each
  rule, none of them nil.
\<close>

lemma newValidatorLoop_programs:
  "length filled = i \<Longrightarrow>
   newValidatorLoop d e rules i (filled @ replicate (length rules) None) = Inr programs \<Longrightarrow>
   \<exists>progs. programs = filled @ map Some progs \<and> length progs = length rules"
proof (induction rules arbitrary: i filled)
  case Nil
  then show ?case by simp
next
  case (Cons rule rest)
  from Cons.prems(2) obtain ast prog where
    c: "EnvCompile d e (Rule rule) = Inr ast" and p: "EnvProgram d e ast = Inr prog"
    by (auto split: sum.splits)
  have upd: "(filled @ replicate (Suc (length rest)) None)[i := Some prog] =
       (filled @ [Some prog]) @ replicate (length rest) None"
    using Cons.prems(1) by (simp add: list_update_append)
  have "newValidatorLoop d e rest (i + 1) ((filled @ [Some prog]) @ replicate (length rest) None) =
      Inr programs"
    using Cons.prems(2) c p upd by simp
  from Cons.IH[OF _ this] Cons.prems(1)
  obtain progs where "programs = (filled @ [Some prog]) @ map Some progs" "length progs = length rest"
    by auto
  then have "programs = filled @ map Some (prog # progs) \<and> length (prog # progs) = length (rule # rest)"
    by simp
  then show ?case by blast
qed

lemma newCelExpressionValidator_programs:
  assumes "newCelExpressionValidator d path schema rules = Inr c"
  shows "\<exists>progs. Programs c = map Some progs \<and> length progs = length (Rules c) \<and>
           Rules c = rules \<and> Path c = path"
proof -
  from assms obtain e programs where
    l: "newValidatorLoop d e rules 0 (replicate (length rules) None) = Inr programs" and
    c: "c = \<lparr>Path = path, Rules = rules, Programs = programs\<rparr>"
    by (auto simp: newCelExpressionValidator_def Let_def split: sum.splits)
  from newValidatorLoop_programs[of "[]" 0 d e rules programs] l
  obtain progs where "programs = map Some progs" "length progs = length rules"
    by auto
  then show ?thesis using c by simp
qed

lemma test_Validate:
  "Validate testEval
     \<lparr>Path = ''spec.replicas'',
      Rules = [\<lparr>Rule = ''self > 0'', Message = ''must be positive''\<rparr>,
               \<lparr>Rule = ''1 / self > 0'', Message = ''inverse must be positive''\<rparr>,
               \<lparr>Rule = ''self'', Message = ''must hold''\<rparr>],
      Programs = [Some ''self > 0'', Some ''1 / self > 0'', Some ''self'']\<rparr> 0 =
   Inr [FailedValidatorRule ''spec.replicas'' [] ''self > 0'' ''must be positive'' 0,
        ErrorExecutingValidatorRule ''spec.replicas'' [] ''1 / self > 0'' ''division by zero'' 0,
        FailedValidatorRule ''spec.replicas'' [] ''self'' ''must hold'' 0]"
  by (simp add: Validate_def testEval_def)

text \<open>
  C4. For a validator whose programs are all compiled (none nil) and have a rule each,
  \<^verbatim>\<open>Validate\<close> returns the result to which the outcome of every rule has been added,
  in rule order: for a runtime error, an error carrying the path, the rule text and the
  cause; for a value other than boolean true, an error carrying the path, the rule text
  and the rule's message; for boolean true, nothing. No outcome stops the loop.
\<close>

theorem validate_outcomes:
  assumes "Programs c = map Some progs" and "length progs \<le> length (Rules c)"
  shows "Validate v c data =
           Inr (foldl (AddErrors v) (newResult v)
                  (concat (map (spec_ruleOutcome v (Path c) data) (zip progs (Rules c)))))"
  using validateLoop_eq[of 0 progs c v data "newResult v"] assms by (simp add: Validate_def)

theorem validate_outcomes_witness:
  "Programs \<lparr>Path = ''spec.replicas'',
      Rules = [\<lparr>Rule = ''self > 0'', Message = ''must be positive''\<rparr>,
               \<lparr>Rule = ''1 / self > 0'', Message = ''inverse must be positive''\<rparr>,
               \<lparr>Rule = ''self'', Message = ''must hold''\<rparr>],
      Programs = [Some ''self > 0'', Some ''1 / self > 0'', Some ''self'']\<rparr> =
     map Some [''self > 0'', ''1 / self > 0'', ''self''] \<and>
   Validate testEval
     \<lparr>Path = ''spec.replicas'',
      Rules = [\<lparr>Rule = ''self > 0'', Message = ''must be positive''\<rparr>,
               \<lparr>Rule = ''1 / self > 0'', Message = ''inverse must be positive''\<rparr>,
               \<lparr>Rule = ''self'', Message = ''must hold''\<rparr>],
      Programs = [Some ''self > 0'', Some ''1 / self > 0'', Some ''self'']\<rparr> 0 =
   Inr [FailedValidatorRule ''spec.replicas'' [] ''self > 0'' ''must be positive'' 0,
        ErrorExecutingValidatorRule ''spec.replicas'' [] ''1 / self > 0'' ''division by zero'' 0,
        FailedValidatorRule ''spec.replicas'' [] ''self'' ''must hold'' 0]"
  using validate_outcomes
    [of "\<lparr>Path = ''spec.replicas'',
      Rules = [\<lparr>Rule = ''self > 0'', Message = ''must be positive''\<rparr>,
               \<lparr>Rule = ''1 / self > 0'', Message = ''inverse must be positive''\<rparr>,
               \<lparr>Rule = ''self'', Message = ''must hold''\<rparr>],
      Programs = [Some ''self > 0'', Some ''1 / self > 0'', Some ''self'']\<rparr>"
      "[''self > 0'', ''1 / self > 0'', ''self'']" testEval 0]
  by (simp add: test_Validate)

text \<open>
  C10. \<^verbatim>\<open>SetPath\<close> leaves the caller's validator as it was, path, rules and programs, so
  \<^verbatim>\<open>Validate\<close> afterwards attributes its errors to the same path.
\<close>

theorem SetPath_leaves_validator:
  "fst (SetPath c path) = c \<and>
   Path (fst (SetPath c path)) = Path c \<and>
   Rules (fst (SetPath c path)) = Rules c \<and>
   Programs (fst (SetPath c path)) = Programs c \<and>
   Validate v (fst (SetPath c path)) data = Validate v c data"
  by (simp add: SetPath_def Let_def)

end
